theory Spec2Isabelle
  imports Complex_Main
begin

section \<open>Arrays and linear algebra, as the script uses numpy\<close>

text \<open>
  The script \<^verbatim>\<open>s2.py\<close> computes with numpy arrays of 64-bit floats. The
  embedding idealises a float as a \<^typ>\<open>real\<close>: a one-dimensional array is a list of
  reals, a two-dimensional array a list of rows. Every statement below is therefore a
  statement about the exact arithmetic the script approximates: rounding, \<open>inf\<close> and
  \<open>nan\<close> are outside the model, and a statement that divides or takes a root is made
  where numpy's result is finite (the divisor is not zero, the radicand not negative).
  The arrays have the fixed shapes the script gives them, so \<open>row ! k\<close> below always
  reads inside a row.
\<close>

type_synonym vec = "real list"
type_synonym mat = "real list list"

datatype error = IndexError | LinAlgError | ValueError

text \<open>\<^verbatim>\<open>u @ v\<close> for two one-dimensional arrays.\<close>

definition dot :: "vec \<Rightarrow> vec \<Rightarrow> real" where
  "dot u v = sum_list (map2 (*) u v)"

text \<open>\<^verbatim>\<open>m @ v\<close> for a matrix and a one-dimensional array.\<close>

definition matvec :: "mat \<Rightarrow> vec \<Rightarrow> vec" where
  "matvec m v = map (\<lambda>row. dot row v) m"

text \<open>\<^verbatim>\<open>A @ B\<close> for two matrices, and \<^verbatim>\<open>A.transpose()\<close>.\<close>

definition mat_transpose :: "mat \<Rightarrow> mat" where
  "mat_transpose m = map (\<lambda>j. map (\<lambda>row. row ! j) m) [0..<length (hd m)]"

definition matmul :: "mat \<Rightarrow> mat \<Rightarrow> mat" where
  "matmul A B = map (\<lambda>row. map (\<lambda>col. dot row col) (mat_transpose B)) A"

text \<open>\<^verbatim>\<open>c * v\<close> and \<^verbatim>\<open>u - v\<close>, elementwise.\<close>

definition scale :: "real \<Rightarrow> vec \<Rightarrow> vec" where
  "scale c v = map ((*) c) v"

definition vsub :: "vec \<Rightarrow> vec \<Rightarrow> vec" where
  "vsub u v = map2 (-) u v"

text \<open>\<^verbatim>\<open>arr[:, k]\<close>: column \<open>k\<close> of a two-dimensional array.\<close>

definition column :: "nat \<Rightarrow> mat \<Rightarrow> vec" where
  "column k rows = map (\<lambda>row. row ! k) rows"

text \<open>\<^verbatim>\<open>np.zeros((rows, cols))\<close> and \<^verbatim>\<open>np.min\<close> of a two-dimensional array
  (which raises on an empty one).\<close>

definition np_zeros2 :: "nat \<Rightarrow> nat \<Rightarrow> mat" where
  "np_zeros2 rows cols = replicate rows (replicate cols 0)"

definition np_min2 :: "mat \<Rightarrow> error + real" where
  "np_min2 m = (case concat m of [] \<Rightarrow> Inl ValueError | x # xs \<Rightarrow> Inr (fold min xs x))"

text \<open>\<^verbatim>\<open>np.linspace(start, stop, num)\<close>: \<open>num\<close> evenly spaced samples, the first
  one \<open>start\<close>. For \<open>num = 1\<close> numpy returns \<open>[start]\<close>, and so does the list
  below (its only element has \<open>k = 0\<close>).\<close>

definition linspace :: "real \<Rightarrow> real \<Rightarrow> nat \<Rightarrow> vec" where
  "linspace start stop num =
     map (\<lambda>k. start + real k * ((stop - start) / real (num - 1))) [0..<num]"

text \<open>\<^verbatim>\<open>arr[k]\<close> for a non-negative \<open>k\<close>, and \<^verbatim>\<open>arr[idx]\<close> for an array
  \<open>idx\<close> of non-negative indices: numpy raises IndexError on an index out of range.\<close>

definition item :: "'a list \<Rightarrow> nat \<Rightarrow> error + 'a" where
  "item arr k = (if k < length arr then Inr (arr ! k) else Inl IndexError)"

definition take_idx :: "'a list \<Rightarrow> nat list \<Rightarrow> error + 'a list" where
  "take_idx arr idx =
     (if list_all (\<lambda>i. i < length arr) idx then Inr (map ((!) arr) idx) else Inl IndexError)"

text \<open>Sequencing of statements that may raise: the first exception ends the run.\<close>

definition and_then :: "error + 'a \<Rightarrow> ('a \<Rightarrow> error + 'b) \<Rightarrow> error + 'b" where
  "and_then r f = (case r of Inl e \<Rightarrow> Inl e | Inr v \<Rightarrow> f v)"

text \<open>\<^verbatim>\<open>np.arctan2(y, x)\<close>: the angle of the point \<open>(x, y)\<close>, in \<open>(-\<pi>, \<pi>]\<close>.\<close>

definition arctan2 :: "real \<Rightarrow> real \<Rightarrow> real" where
  "arctan2 y x =
     (if 0 < x then arctan (y / x)
      else if x < 0 then (if 0 \<le> y then arctan (y / x) + pi else arctan (y / x) - pi)
      else if 0 < y then pi / 2
      else if y < 0 then - (pi / 2)
      else 0)"

text \<open>\<^verbatim>\<open>np.linalg.solve(m, v)\<close> for a 3\<times>3 system: the unique solution (written
  here by Cramer's rule), and LinAlgError when the matrix is singular.\<close>

definition det3 :: "mat \<Rightarrow> real" where
  "det3 m =
     m ! 0 ! 0 * (m ! 1 ! 1 * m ! 2 ! 2 - m ! 1 ! 2 * m ! 2 ! 1)
     - m ! 0 ! 1 * (m ! 1 ! 0 * m ! 2 ! 2 - m ! 1 ! 2 * m ! 2 ! 0)
     + m ! 0 ! 2 * (m ! 1 ! 0 * m ! 2 ! 1 - m ! 1 ! 1 * m ! 2 ! 0)"

definition replace_col :: "mat \<Rightarrow> nat \<Rightarrow> vec \<Rightarrow> mat" where
  "replace_col m j v = map2 (\<lambda>row x. row[j := x]) m v"

definition linalg_solve :: "mat \<Rightarrow> vec \<Rightarrow> error + vec" where
  "linalg_solve m v =
     (if det3 m = 0 then Inl LinAlgError
      else Inr (map (\<lambda>j. det3 (replace_col m j v) / det3 m) [0..<3]))"

section \<open>Frames (lines 91-108)\<close>

definition spin_phi :: real where
  "spin_phi = 0"

definition spin_theta :: real where
  "spin_theta = 0"

definition R_spin_phi :: mat where
  "R_spin_phi = [[cos spin_phi, sin spin_phi, 0],
                 [- sin spin_phi, cos spin_phi, 0],
                 [0, 0, 1]]"

definition R_spin_theta :: mat where
  "R_spin_theta = [[- cos spin_theta, 0, sin spin_theta],
                   [0, 1, 0],
                   [- sin spin_theta, 0, - cos spin_theta]]"

definition bh_from_obs :: mat where
  "bh_from_obs = matmul R_spin_theta R_spin_phi"

definition obs_from_bh :: mat where
  "obs_from_bh = mat_transpose bh_from_obs"

section \<open>Boyer-Lindquist and Cartesian coordinates\<close>

text \<open>Lines 195-199 (and 278-282 for a light ray): the Cartesian point in the black
  hole's frame of the Boyer-Lindquist position \<open>(r, \<theta>, \<phi>)\<close>.\<close>

definition cartesian :: "real \<Rightarrow> real \<Rightarrow> real \<Rightarrow> real \<Rightarrow> vec" where
  "cartesian a r theta phi =
     [sqrt (r * r + a * a) * sin theta * cos phi,
      sqrt (r * r + a * a) * sin theta * sin phi,
      r * cos theta]"

definition orbit_xyz :: "real \<Rightarrow> mat \<Rightarrow> mat" where
  "orbit_xyz a orbit = map (\<lambda>s. cartesian a (s ! 1) (s ! 2) (s ! 3)) orbit"

definition ray_xyz :: "real \<Rightarrow> mat \<Rightarrow> mat" where
  "ray_xyz a ray = map (\<lambda>s. cartesian a (s ! 0) (s ! 1) (s ! 2)) ray"

text \<open>Lines 135-140: the Boyer-Lindquist position \<open>[r0, theta0, phi0]\<close> of the
  Cartesian point \<open>(x0, y0, z0)\<close>.\<close>

definition a_xyz :: "real \<Rightarrow> real \<Rightarrow> real \<Rightarrow> real \<Rightarrow> real" where
  "a_xyz a x0 y0 z0 = a * a - x0 * x0 - y0 * y0 - z0 * z0"

definition boyer_lindquist :: "real \<Rightarrow> real \<Rightarrow> real \<Rightarrow> real \<Rightarrow> vec" where
  "boyer_lindquist a x0 y0 z0 =
     (let phi0 = arctan2 y0 x0;
          r0 = sqrt (- (1 / 2) * a_xyz a x0 y0 z0
                     + (1 / 2) * sqrt (a_xyz a x0 y0 z0 * a_xyz a x0 y0 z0 + 4 * a * a * z0 * z0));
          theta0 = arccos (z0 / r0)
      in [r0, theta0, phi0])"

text \<open>Modelled from the spec: \<^verbatim>\<open>utils.xyz_to_bl\<close> is imported by the script and
  is not among the sources. The spec (4.6) makes it the conversion from Cartesian to
  Boyer-Lindquist coordinates in the black hole's frame, the inverse of the map above; it
  is taken to be the inverse that the script itself spells out in lines 135-140,
  returning \<open>(r, \<theta>, \<phi>)\<close> in the order line 242 unpacks.\<close>

definition xyz_to_bl :: "vec \<Rightarrow> real \<Rightarrow> vec" where
  "xyz_to_bl xyz a = boyer_lindquist a (xyz ! 0) (xyz ! 1) (xyz ! 2)"

text \<open>Modelled from the spec: the horizon function \<open>\<Delta>(r) = r\<^sup>2 - 2r + a\<^sup>2\<close> of 4.1
  (it lives in \<^verbatim>\<open>deriv_funcs_light\<close>, not among the sources), and the radius of the
  horizon, its larger root.\<close>

definition Delta :: "real \<Rightarrow> real \<Rightarrow> real" where
  "Delta a r = r * r - 2 * r + a * a"

definition horizon :: "real \<Rightarrow> real" where
  "horizon a = 1 + sqrt (1 - a * a)"

text \<open>Modelled from the spec: \<^verbatim>\<open>deriv_funcs_light.metric\<close> is not among the
  sources. The spec (4.1) makes it the 4\<times>4 covariant Kerr metric in Boyer-Lindquist
  coordinates \<open>(t, r, \<theta>, \<phi>)\<close>, mass 1, a function of the \<open>r\<close> and \<open>\<theta>\<close> of the
  state only, with the \<open>t\<close>-\<open>\<phi>\<close> coupling as its one off-diagonal component. For a
  light ray the state is \<open>[r, \<theta>, \<phi>, p_r, p_\<theta>]\<close>. This definition serves as a
  concrete instance; the theorems on rays take the metric as a parameter.\<close>

definition kerr_metric :: "vec \<Rightarrow> real \<Rightarrow> mat" where
  "kerr_metric s a =
     (let r = s ! 0; theta = s ! 1;
          Sigma = r * r + a * a * cos theta * cos theta;
          g_tphi = - (2 * a * r * sin theta * sin theta / Sigma)
      in [[- (1 - 2 * r / Sigma), 0, 0, g_tphi],
          [0, Sigma / Delta a r, 0, 0],
          [0, 0, Sigma, 0],
          [g_tphi, 0, 0,
           (r * r + a * a + 2 * a * a * r * sin theta * sin theta / Sigma)
             * sin theta * sin theta]])"

section \<open>Rescaling the massive particle's velocity to proper time (lines 167-173)\<close>

text \<open>
  \<^verbatim>\<open>dt_dtau = 1/np.sqrt(-(metric0 @ _u_dt) @ _u_dt)\<close>,
  \<^verbatim>\<open>_p = dt_dtau * _u_dt\<close>, \<^verbatim>\<open>p_cov = metric0 @ _p\<close>. The metric tensor
  \<open>metric0\<close> is the value of \<^verbatim>\<open>deriv_funcs_massive.metric\<close>, which is not
  among the sources: it is a parameter here.
\<close>

definition dt_dtau :: "mat \<Rightarrow> vec \<Rightarrow> real" where
  "dt_dtau metric0 u_dt = 1 / sqrt (- dot (matvec metric0 u_dt) u_dt)"

definition four_momentum :: "mat \<Rightarrow> vec \<Rightarrow> vec" where
  "four_momentum metric0 u_dt = scale (dt_dtau metric0 u_dt) u_dt"

definition p_cov :: "mat \<Rightarrow> vec \<Rightarrow> vec" where
  "p_cov metric0 u_dt = matvec metric0 (four_momentum metric0 u_dt)"

section \<open>Orbit analysis (lines 209-222)\<close>

text \<open>
  \<open>t\<close> and \<open>pr\<close> are columns 0 and 4 of the integrated orbit, \<open>orbit_orb\<close> holds the
  positions in the orbital plane's frame. \<open>imaxs\<close> and \<open>imins\<close> are the index arrays
  that \<^verbatim>\<open>utils.maxima(pr)\<close> and \<^verbatim>\<open>utils.minima(pr)\<close> return; the two
  functions are not among the sources, so their results are parameters.
\<close>

definition phase :: "mat \<Rightarrow> vec" where
  "phase orbit_orb = map2 arctan2 (column 1 orbit_orb) (column 0 orbit_orb)"

text \<open>\<^verbatim>\<open>simul_period = t[imaxs][1] - t[imaxs][0]\<close>\<close>

definition simul_period :: "vec \<Rightarrow> nat list \<Rightarrow> error + real" where
  "simul_period t imaxs =
     and_then (take_idx t imaxs) (\<lambda>sel1.
     and_then (item sel1 1) (\<lambda>t1.
     and_then (take_idx t imaxs) (\<lambda>sel0.
     and_then (item sel0 0) (\<lambda>t0.
     Inr (t1 - t0)))))"

text \<open>\<^verbatim>\<open>simul_sma = (orbit_orb[imins, 0][0] - orbit_orb[imaxs, 0][0])/2\<close>\<close>

definition simul_sma :: "mat \<Rightarrow> nat list \<Rightarrow> nat list \<Rightarrow> error + real" where
  "simul_sma orbit_orb imins imaxs =
     and_then (take_idx (column 0 orbit_orb) imins) (\<lambda>xmins.
     and_then (item xmins 0) (\<lambda>xmin.
     and_then (take_idx (column 0 orbit_orb) imaxs) (\<lambda>xmaxs.
     and_then (item xmaxs 0) (\<lambda>xmax.
     Inr ((xmin - xmax) / 2)))))"

text \<open>\<^verbatim>\<open>deltaphase = phase[imaxs][1] + np.pi\<close>\<close>

definition deltaphase :: "mat \<Rightarrow> nat list \<Rightarrow> error + real" where
  "deltaphase orbit_orb imaxs =
     and_then (take_idx (phase orbit_orb) imaxs) (\<lambda>sel.
     and_then (item sel 1) (\<lambda>ph.
     Inr (ph + pi)))"

text \<open>Lines 209-222 in their order; the result is the triple
  \<open>(simul_period, simul_sma, deltaphase)\<close>, or the first exception raised.\<close>

definition orbit_analysis :: "mat \<Rightarrow> mat \<Rightarrow> nat list \<Rightarrow> nat list \<Rightarrow> error + (real \<times> real \<times> real)" where
  "orbit_analysis orbit orbit_orb imaxs imins =
     (let t = column 0 orbit in
      and_then (simul_period t imaxs) (\<lambda>period.
      and_then (simul_sma orbit_orb imins imaxs) (\<lambda>sma.
      and_then (deltaphase orbit_orb imaxs) (\<lambda>dphase.
      Inr (period, sma, dphase)))))"

text \<open>The spec's wording of the semi-major axis (4.7): half the Euclidean distance
  between two positions.\<close>

definition euclidean_distance :: "vec \<Rightarrow> vec \<Rightarrow> real" where
  "euclidean_distance u v = sqrt (dot (vsub u v) (vsub u v))"

definition half_distance :: "vec \<Rightarrow> vec \<Rightarrow> real" where
  "half_distance u v = euclidean_distance u v / 2"

section \<open>Shooting a light ray: \<^verbatim>\<open>minimum_distance\<close> (lines 233-292)\<close>

definition z_inf :: real where
  "z_inf = 100000"

text \<open>Lines 237 and 241: the start of the ray in the black hole's frame, Cartesian and
  Boyer-Lindquist.\<close>

definition xyz0_of :: "real \<Rightarrow> real \<Rightarrow> vec" where
  "xyz0_of x y = matvec bh_from_obs [x, y, z_inf]"

definition pos0_of :: "real \<Rightarrow> real \<Rightarrow> real \<Rightarrow> vec" where
  "pos0_of x y a = xyz_to_bl (xyz0_of x y) a"

text \<open>Line 245: the direction of the ray.\<close>

definition v0 :: vec where
  "v0 = matvec bh_from_obs [0, 0, 1]"

text \<open>Lines 247-251 (and 157-161): the matrix that takes the rates of \<open>(r, \<theta>, \<phi>)\<close>
  to the Cartesian velocity.\<close>

definition direction_matrix :: "real \<Rightarrow> real \<Rightarrow> real \<Rightarrow> real \<Rightarrow> real \<Rightarrow> real \<Rightarrow> mat" where
  "direction_matrix a x0 y0 z0 r0 theta0 =
     [[r0 * x0 / (r0 * r0 + a * a), - x0 * tan (theta0 - pi / 2), - y0],
      [r0 * y0 / (r0 * r0 + a * a), - y0 * tan (theta0 - pi / 2), x0],
      [z0 / r0, - r0 * sin theta0, 0]]"

definition mat_of :: "real \<Rightarrow> real \<Rightarrow> real \<Rightarrow> mat" where
  "mat_of x y a =
     (let xyz0 = xyz0_of x y; pos0 = pos0_of x y a
      in direction_matrix a (xyz0 ! 0) (xyz0 ! 1) (xyz0 ! 2) (pos0 ! 0) (pos0 ! 1))"

text \<open>Lines 258-262: \<open>_p\<close> starts as four zeros; the solution of the linear system
  fills its entries 1 to 3. When the solve raises, the bare \<^verbatim>\<open>except\<close> prints the
  matrix and the run goes on with \<open>_p\<close> as it is. The first component of the result is
  what was printed.\<close>

definition solve_or_print :: "mat \<Rightarrow> vec \<Rightarrow> mat list \<times> vec" where
  "solve_or_print m v =
     (case linalg_solve m v of
        Inr s \<Rightarrow> ([], [0] @ s)
      | Inl e \<Rightarrow> ([m], [0, 0, 0, 0]))"

record ray_setup =
  rs_printed :: "mat list"
  rs_p :: vec
  rs_p_cov :: vec
  rs_ray0 :: vec
  rs_b :: real

text \<open>Lines 237-270: everything before the integration. \<open>metric_l\<close> is
  \<^verbatim>\<open>deriv_funcs_light.metric\<close>, a parameter.\<close>

definition ray_init :: "(vec \<Rightarrow> real \<Rightarrow> mat) \<Rightarrow> real \<Rightarrow> real \<Rightarrow> real \<Rightarrow> ray_setup" where
  "ray_init metric_l x y a =
     (let pos0 = pos0_of x y a;
          ray0 = pos0 @ [0, 0];
          metric0 = metric_l ray0 a;
          (out, p1) = solve_or_print (mat_of x y a) v0;
          p = p1[0 := (- 1 - p1 ! 2 * metric0 ! 0 ! 2) / metric0 ! 0 ! 0];
          pc = matvec metric0 p
      in \<lparr>rs_printed = out, rs_p = p, rs_p_cov = pc,
          rs_ray0 = take 3 ray0 @ [pc ! 1, pc ! 2], rs_b = pc ! 3\<rparr>)"

text \<open>Line 274: \<^verbatim>\<open>spi.odeint(deriv_l, ray0, _zeta, (a, b), atol = 1e-10)\<close>. The
  result has one row for each value of the grid, the first row being the initial state.
  The rows after it are the solver's, a parameter: \<open>flow y0 t0 t\<close> is the state it
  reports at \<open>t\<close> for the state \<open>y0\<close> at \<open>t0\<close>.\<close>

definition odeint :: "(vec \<Rightarrow> real \<Rightarrow> real \<Rightarrow> vec) \<Rightarrow> vec \<Rightarrow> vec \<Rightarrow> mat" where
  "odeint flow y0 ts =
     (case ts of [] \<Rightarrow> [] | t0 # rest \<Rightarrow> y0 # map (\<lambda>t. flow y0 t0 t) rest)"

text \<open>Lines 285-290: the loop over the sampled points, \<open>dist_sqr_min\<close> its
  accumulator.\<close>

fun scan_min :: "real \<Rightarrow> mat \<Rightarrow> vec \<Rightarrow> real" where
  "scan_min dist_sqr_min [] pos = dist_sqr_min"
| "scan_min dist_sqr_min (row # rows) pos =
     (let ray_obs = matvec obs_from_bh row;
          disp = vsub ray_obs pos;
          dist_sqr = dot disp disp
      in scan_min (if dist_sqr < dist_sqr_min then dist_sqr else dist_sqr_min) rows pos)"

text \<open>Lines 272-282: the sampled points of the ray, Cartesian in the black hole's
  frame. \<open>solver a b\<close> is the flow of \<^verbatim>\<open>deriv_l\<close> with the arguments
  \<open>(a, b)\<close>.\<close>

definition ray_samples ::
  "(vec \<Rightarrow> real \<Rightarrow> mat) \<Rightarrow> (real \<Rightarrow> real \<Rightarrow> vec \<Rightarrow> real \<Rightarrow> real \<Rightarrow> vec) \<Rightarrow> real \<Rightarrow> real \<Rightarrow> real \<Rightarrow> nat \<Rightarrow> mat" where
  "ray_samples metric_l solver x y a nt =
     (let s = ray_init metric_l x y a;
          zeta = linspace 0 (- (12 / 10) * z_inf) (nt + 1);
          ray = odeint (solver a (rs_b s)) (rs_ray0 s) zeta
      in ray_xyz a ray)"

text \<open>The whole function: what it prints, and what it returns.\<close>

definition minimum_distance ::
  "(vec \<Rightarrow> real \<Rightarrow> mat) \<Rightarrow> (real \<Rightarrow> real \<Rightarrow> vec \<Rightarrow> real \<Rightarrow> real \<Rightarrow> vec) \<Rightarrow> real \<Rightarrow> real \<Rightarrow> vec \<Rightarrow> real \<Rightarrow> nat
     \<Rightarrow> mat list \<times> real" where
  "minimum_distance metric_l solver x y pos a nt =
     (let s = ray_init metric_l x y a;
          samples = ray_samples metric_l solver x y a nt;
          dist_sqr_min = scan_min (2 * z_inf * z_inf) samples pos
      in (rs_printed s, sqrt dist_sqr_min))"

section \<open>The grid of sky offsets (lines 299-313)\<close>

definition nx :: nat where
  "nx = 25"

definition ny :: nat where
  "ny = 25"

definition xspace :: vec where
  "xspace = linspace (- 2231) (- 2229) nx"

definition yspace :: vec where
  "yspace = linspace 387 389 ny"

text \<open>Lines 308-313: the two loops (both run over \<^verbatim>\<open>range(nx)\<close>), filling the
  grid; \<open>md x y\<close> stands for \<^verbatim>\<open>minimum_distance(x, y, peri_obs, a, 10000)\<close>.\<close>

definition fill_grid :: "(real \<Rightarrow> real \<Rightarrow> real) \<Rightarrow> mat \<Rightarrow> mat" where
  "fill_grid md min_dist =
     fold (\<lambda>i grid.
       fold (\<lambda>j g. g[j := (g ! j)[i := md (xspace ! i) (yspace ! j)]]) [0..<nx] grid)
       [0..<nx] min_dist"

text \<open>Lines 304-313: the grid is created, its minimum is printed as
  \<^verbatim>\<open>Closest Ray\<close>, and only then the grid is filled. The result is the printed value
  and the final grid.\<close>

definition grid_scan :: "(real \<Rightarrow> real \<Rightarrow> real) \<Rightarrow> (error + real) \<times> mat" where
  "grid_scan md =
     (let min_dist = np_zeros2 ny nx;
          closest_ray = np_min2 min_dist
      in (closest_ray, fill_grid md min_dist))"

section \<open>Properties\<close>

subsection \<open>Linear algebra\<close>

lemma dot_scale_right: "dot u (scale c v) = c * dot u v"
  unfolding dot_def scale_def
proof (induction u arbitrary: v)
  case Nil
  show ?case by simp
next
  case (Cons x xs)
  show ?case
  proof (cases v)
    case Nil
    then show ?thesis by simp
  next
    case (Cons y ys)
    with Cons.IH [of ys] show ?thesis by (simp add: algebra_simps)
  qed
qed

lemma dot_scale_left: "dot (scale c u) v = c * dot u v"
  unfolding dot_def scale_def
proof (induction u arbitrary: v)
  case Nil
  show ?case by simp
next
  case (Cons x xs)
  show ?case
  proof (cases v)
    case Nil
    then show ?thesis by simp
  next
    case (Cons y ys)
    with Cons.IH [of ys] show ?thesis by (simp add: algebra_simps)
  qed
qed

lemma matvec_scale: "matvec m (scale c v) = scale c (matvec m v)"
  by (simp add: matvec_def scale_def dot_scale_right [unfolded scale_def])

lemma upt_3: "[0..<3] = [0, 1, 2]"
  by code_simp

lemma list4: "length xs = 4 \<Longrightarrow> \<exists>a b c d. xs = [a, b, c, d]"
  by (auto simp: numeral_eq_Suc length_Suc_conv)

text \<open>
  The model of \<^verbatim>\<open>np.linalg.solve\<close> is sound: what it returns for a 3\<times>3 system
  solves the system.
\<close>

lemma linalg_solve_solves:
  assumes "linalg_solve [[a, b, c], [d, e, f], [g, h, i]] [p, q, r] = Inr s"
  shows "matvec [[a, b, c], [d, e, f], [g, h, i]] s = [p, q, r]"
proof -
  let ?m = "[[a, b, c], [d, e, f], [g, h, i]]"
  have nz: "det3 ?m \<noteq> 0"
    using assms by (auto simp: linalg_solve_def split: if_splits)
  then have s: "s = [det3 (replace_col ?m 0 [p, q, r]) / det3 ?m,
                     det3 (replace_col ?m 1 [p, q, r]) / det3 ?m,
                     det3 (replace_col ?m 2 [p, q, r]) / det3 ?m]"
    using assms by (simp add: linalg_solve_def upt_3)
  define D where "D = det3 ?m"
  have D: "D = a * (e * i - f * h) - b * (d * i - f * g) + c * (d * h - e * g)"
    by (simp add: D_def det3_def)
  have Dnz: "D \<noteq> 0" using nz by (simp add: D_def)
  have s': "s = [(p * (e * i - f * h) - b * (q * i - f * r) + c * (q * h - e * r)) / D,
                 (a * (q * i - f * r) - p * (d * i - f * g) + c * (d * r - q * g)) / D,
                 (a * (e * r - q * h) - b * (d * r - q * g) + p * (d * h - e * g)) / D]"
    unfolding s D_def [symmetric] by (simp add: det3_def replace_col_def)
  define N0 where "N0 = p * (e * i - f * h) - b * (q * i - f * r) + c * (q * h - e * r)"
  define N1 where "N1 = a * (q * i - f * r) - p * (d * i - f * g) + c * (d * r - q * g)"
  define N2 where "N2 = a * (e * r - q * h) - b * (d * r - q * g) + p * (d * h - e * g)"
  have comb: "u * (N0 / D) + v * (N1 / D) + w * (N2 / D) = (u * N0 + v * N1 + w * N2) / D"
    for u v w by (simp add: add_divide_distrib)
  have "a * N0 + b * N1 + c * N2 = p * D"
    unfolding D N0_def N1_def N2_def by (simp add: algebra_simps)
  then have "(a * N0 + b * N1 + c * N2) / D = p"
    using Dnz by simp
  then have 1: "a * (N0 / D) + b * (N1 / D) + c * (N2 / D) = p"
    by (simp only: comb)
  have "d * N0 + e * N1 + f * N2 = q * D"
    unfolding D N0_def N1_def N2_def by (simp add: algebra_simps)
  then have "(d * N0 + e * N1 + f * N2) / D = q"
    using Dnz by simp
  then have 2: "d * (N0 / D) + e * (N1 / D) + f * (N2 / D) = q"
    by (simp only: comb)
  have "g * N0 + h * N1 + i * N2 = r * D"
    unfolding D N0_def N1_def N2_def by (simp add: algebra_simps)
  then have "(g * N0 + h * N1 + i * N2) / D = r"
    using Dnz by simp
  then have 3: "g * (N0 / D) + h * (N1 / D) + i * (N2 / D) = r"
    by (simp only: comb)
  show ?thesis
    unfolding s' N0_def [symmetric] N1_def [symmetric] N2_def [symmetric]
    using 1 2 3 by (simp add: matvec_def dot_def)
qed

subsection \<open>The 4-momentum of the massive particle\<close>

text \<open>
  C6. Whenever the coordinate-time velocity is timelike for the metric at the starting
  point (\<open>metric0(_u_dt, _u_dt) < 0\<close>), the rescaled 4-momentum \<open>_p\<close> has norm
  \<open>-1\<close>: \<open>(metric0 @ _p) @ _p = -1\<close>, for any metric tensor whatever.
\<close>

theorem four_momentum_normalised:
  assumes "dot (matvec metric0 u_dt) u_dt < 0"
  shows "dot (matvec metric0 (four_momentum metric0 u_dt)) (four_momentum metric0 u_dt) = -1"
proof -
  let ?s = "dot (matvec metric0 u_dt) u_dt"
  have pos: "0 < - ?s" using assms by simp
  have "dot (matvec metric0 (four_momentum metric0 u_dt)) (four_momentum metric0 u_dt)
        = (1 / sqrt (- ?s)) * ((1 / sqrt (- ?s)) * ?s)"
    by (simp add: four_momentum_def dt_dtau_def matvec_scale dot_scale_left dot_scale_right)
  also have "\<dots> = ?s / (sqrt (- ?s) * sqrt (- ?s))" by simp
  also have "sqrt (- ?s) * sqrt (- ?s) = - ?s" using pos by simp
  also have "?s / (- ?s) = -1" using pos by simp
  finally show ?thesis .
qed

theorem four_momentum_normalised_witness:
  "dot (matvec [[-1, 0, 0, 0], [0, 1, 0, 0], [0, 0, 1, 0], [0, 0, 0, 1]] [1, 0, 0, 0]) [1, 0, 0, 0] < 0
   \<and> dot (matvec [[-1, 0, 0, 0], [0, 1, 0, 0], [0, 0, 1, 0], [0, 0, 0, 1]]
             (four_momentum [[-1, 0, 0, 0], [0, 1, 0, 0], [0, 0, 1, 0], [0, 0, 0, 1]] [1, 0, 0, 0]))
          (four_momentum [[-1, 0, 0, 0], [0, 1, 0, 0], [0, 0, 1, 0], [0, 0, 0, 1]] [1, 0, 0, 0]) = -1"
proof -
  have h: "dot (matvec [[-1, 0, 0, 0], [0, 1, 0, 0], [0, 0, 1, 0], [0, 0, 0, 1]] [1, 0, 0, 0])
             [1, 0, 0, 0] < 0"
    by (simp add: dot_def matvec_def)
  show ?thesis using h four_momentum_normalised [OF h] by simp
qed

subsection \<open>The grid scan\<close>

lemma fold_min_zero: "list_all (\<lambda>v. v = (0::real)) xs \<Longrightarrow> fold min xs 0 = 0"
  by (induction xs) auto

lemma concat_zeros: "list_all (\<lambda>v. v = (0::real)) (concat (replicate n (replicate m 0)))"
  by (induction n) (auto simp: list_all_iff)

lemma np_min2_zeros:
  assumes "0 < rows" "0 < cols"
  shows "np_min2 (np_zeros2 rows cols) = Inr 0"
proof -
  obtain r where r: "rows = Suc r" using assms(1) by (cases rows) auto
  obtain c where c: "cols = Suc c" using assms(2) by (cases cols) auto
  define rest where "rest = replicate c (0::real) @ concat (replicate r (replicate cols 0))"
  have split: "concat (replicate rows (replicate cols (0::real))) = 0 # rest"
    by (simp add: r c rest_def)
  have "list_all (\<lambda>v. v = (0::real)) rest"
    using concat_zeros [of r cols] by (auto simp: list_all_iff rest_def)
  then have "fold min rest 0 = 0" by (rule fold_min_zero)
  then show ?thesis
    by (simp add: np_min2_def np_zeros2_def split)
qed

text \<open>
  C10. The value printed as \<^verbatim>\<open>Closest Ray\<close> is the minimum of the grid as
  \<^verbatim>\<open>np.zeros\<close> created it, taken before the loops fill any cell: it is 0 whatever
  \<^verbatim>\<open>minimum_distance\<close> returns during the scan.
\<close>

theorem closest_ray_is_zero:
  "fst (grid_scan md) = np_min2 (np_zeros2 ny nx) \<and> fst (grid_scan md) = Inr 0"
  by (simp add: grid_scan_def Let_def np_min2_zeros nx_def ny_def)

subsection \<open>Orbit analysis\<close>

lemma simul_period_ok:
  assumes "2 \<le> length imaxs" "list_all (\<lambda>i. i < length t) imaxs"
  shows "simul_period t imaxs = Inr (t ! (imaxs ! 1) - t ! (imaxs ! 0))"
proof -
  have "imaxs \<noteq> []" using assms(1) by auto
  then show ?thesis
    using assms by (simp add: simul_period_def take_idx_def and_then_def item_def)
qed

lemma deltaphase_ok:
  assumes "2 \<le> length imaxs" "list_all (\<lambda>i. i < length orbit_orb) imaxs"
  shows "deltaphase orbit_orb imaxs
         = Inr (arctan2 (orbit_orb ! (imaxs ! 1) ! 1) (orbit_orb ! (imaxs ! 1) ! 0) + pi)"
proof -
  have len: "length (phase orbit_orb) = length orbit_orb"
    by (simp add: phase_def column_def)
  have i1: "imaxs ! 1 < length orbit_orb"
    using assms by (simp add: list_all_length)
  have "phase orbit_orb ! (imaxs ! 1)
        = arctan2 (orbit_orb ! (imaxs ! 1) ! 1) (orbit_orb ! (imaxs ! 1) ! 0)"
    using i1 by (simp add: phase_def column_def)
  then show ?thesis
    using assms by (simp add: deltaphase_def take_idx_def and_then_def item_def len)
qed

lemma simul_sma_ok:
  assumes "imins \<noteq> []" "imaxs \<noteq> []" "list_all (\<lambda>i. i < length orbit_orb) imins"
    "list_all (\<lambda>i. i < length orbit_orb) imaxs"
  shows "simul_sma orbit_orb imins imaxs
         = Inr ((orbit_orb ! (imins ! 0) ! 0 - orbit_orb ! (imaxs ! 0) ! 0) / 2)"
proof -
  have a: "imins ! 0 < length orbit_orb" "imaxs ! 0 < length orbit_orb"
    using assms by (simp_all add: list_all_length)
  show ?thesis
    using assms a by (simp add: simul_sma_def take_idx_def and_then_def item_def column_def)
qed

lemma simul_period_short:
  assumes "length imaxs < 2"
  shows "simul_period t imaxs = Inl IndexError"
  using assms by (simp add: simul_period_def take_idx_def and_then_def item_def)

lemma sqrt_100: "sqrt 100 = 10"
  by (rule real_sqrt_unique) simp_all

text \<open>
  C2. With at least two maxima of \<open>p_r\<close> detected (indices into the trajectory), the
  period is \<open>t\<close> at the second maximum minus \<open>t\<close> at the first, and the precession per
  orbit is \<open>arctan2(y, x)\<close> of the orbital-plane position at the second maximum, plus
  \<open>\<pi>\<close>; and these are the values the analysis reports whenever the line between them,
  the semi-major axis, does not raise.
\<close>

theorem period_and_precession:
  assumes "2 \<le> length imaxs"
    and "list_all (\<lambda>i. i < length orbit) imaxs"
    and "length orbit_orb = length orbit"
  shows "simul_period (column 0 orbit) imaxs
           = Inr (column 0 orbit ! (imaxs ! 1) - column 0 orbit ! (imaxs ! 0))
         \<and> deltaphase orbit_orb imaxs
           = Inr (arctan2 (orbit_orb ! (imaxs ! 1) ! 1) (orbit_orb ! (imaxs ! 1) ! 0) + pi)
         \<and> (\<forall>sma. simul_sma orbit_orb imins imaxs = Inr sma \<longrightarrow>
              orbit_analysis orbit orbit_orb imaxs imins
              = Inr (column 0 orbit ! (imaxs ! 1) - column 0 orbit ! (imaxs ! 0), sma,
                     arctan2 (orbit_orb ! (imaxs ! 1) ! 1) (orbit_orb ! (imaxs ! 1) ! 0) + pi))"
proof -
  have p: "simul_period (column 0 orbit) imaxs
           = Inr (column 0 orbit ! (imaxs ! 1) - column 0 orbit ! (imaxs ! 0))"
    using assms(1,2) by (intro simul_period_ok) (simp_all add: column_def)
  have d: "deltaphase orbit_orb imaxs
           = Inr (arctan2 (orbit_orb ! (imaxs ! 1) ! 1) (orbit_orb ! (imaxs ! 1) ! 0) + pi)"
    using assms by (intro deltaphase_ok) simp_all
  show ?thesis
    by (simp add: p d orbit_analysis_def Let_def and_then_def)
qed

theorem period_and_precession_witness:
  "simul_period (column 0 [[0, 9, 1, 0, 0, 0], [2, 9, 1, 1, 1, 0], [4, 9, 1, 2, 0, 0],
                           [6, 9, 1, 3, 1, 0], [8, 9, 1, 4, 0, 0]]) [1, 3] = Inr 4
   \<and> deltaphase [[1, 0, 0], [0, 1, 0], [- 1, 0, 0], [0, - 1, 0], [1, 0, 0]] [1, 3] = Inr (pi / 2)
   \<and> orbit_analysis [[0, 9, 1, 0, 0, 0], [2, 9, 1, 1, 1, 0], [4, 9, 1, 2, 0, 0],
                     [6, 9, 1, 3, 1, 0], [8, 9, 1, 4, 0, 0]]
        [[1, 0, 0], [0, 1, 0], [- 1, 0, 0], [0, - 1, 0], [1, 0, 0]] [1, 3] [2]
      = Inr (4, - (1 / 2), pi / 2)"
proof -
  let ?orbit = "[[0, 9, 1, 0, 0, 0], [2, 9, 1, 1, 1, 0], [4, 9, 1, 2, 0, 0],
                 [6, 9, 1, 3, 1, 0], [8, 9, 1, 4, 0, 0 :: real]]"
  let ?orb = "[[1, 0, 0], [0, 1, 0], [- 1, 0, 0], [0, - 1, 0], [1, 0, 0 :: real]]"
  have h1: "2 \<le> length [1, 3 :: nat]" by simp
  have h2: "list_all (\<lambda>i. i < length ?orbit) [1, 3]" by simp
  have h3: "length ?orb = length ?orbit" by simp
  have sma: "simul_sma ?orb [2] [1, 3] = Inr (- (1 / 2))"
    by (simp add: simul_sma_def take_idx_def and_then_def item_def column_def)
  from period_and_precession [OF h1 h2 h3, of "[2]"] sma
  show ?thesis
    by (simp add: column_def arctan2_def)
qed

text \<open>
  C4 as stated fails: on a trajectory with a single detected maximum of \<open>p_r\<close> the
  analysis ends in IndexError, the out-of-range access the claim excludes.
\<close>

theorem one_maximum_index_error:
  "orbit_analysis [[0, 10, 1, 0, 0, 0], [1, 11, 1, 1, 1, 0], [2, 10, 1, 2, 0, 0]]
     [[10, 0, 0], [0, 11, 0], [- 10, 0, 0]] [1] [0] = Inl IndexError"
  by (simp add: orbit_analysis_def Let_def simul_period_def take_idx_def and_then_def
      item_def column_def)

text \<open>
  C4, as amended. With fewer than two maxima of \<open>p_r\<close> detected, the analysis ends in
  the IndexError that \<^verbatim>\<open>t[imaxs][1]\<close> raises: an index out of range, and no other
  report.
\<close>

theorem fewer_than_two_maxima:
  assumes "length imaxs < 2"
  shows "simul_period (column 0 orbit) imaxs = Inl IndexError
         \<and> orbit_analysis orbit orbit_orb imaxs imins = Inl IndexError"
  using assms by (simp add: orbit_analysis_def Let_def simul_period_short and_then_def)

theorem fewer_than_two_maxima_witness:
  "length ([] :: nat list) < 2
   \<and> simul_period (column 0 [[0, 10, 1, 0, 0, 0], [1, 9, 1, 1, - 1, 0]]) [] = Inl IndexError
   \<and> orbit_analysis [[0, 10, 1, 0, 0, 0], [1, 9, 1, 1, - 1, 0]] [[10, 0, 0], [9, 1, 0]] [] []
     = Inl IndexError"
proof -
  have h: "length ([] :: nat list) < 2" by simp
  show ?thesis
    using h fewer_than_two_maxima [OF h] by simp
qed

text \<open>
  C7 as stated fails: where the positions at the first minimum and the first maximum of
  \<open>p_r\<close> differ in \<open>y\<close>, the semi-major axis the script computes (here 3) is not
  half their Euclidean distance (here 5).
\<close>

theorem sma_not_half_distance:
  "orbit_analysis
     [[0, 9, 1, 0, 0, 0], [1, 5, 1, 1, - 1, 0], [2, 5, 1, 2, 1, 0], [3, 5, 1, 3, - 1, 0],
      [4, 5, 1, 4, 1, 0], [5, 9, 1, 5, 0, 0]]
     [[0, 9, 0], [3, 4, 0], [- 3, - 4, 0], [3, 4, 0], [1, 0, 0], [0, 9, 0]] [2, 4] [1, 3]
   = Inr (2, 3, pi)
   \<and> half_distance [3, 4, 0] [- 3, - 4, 0] = 5"
  by (simp add: orbit_analysis_def Let_def simul_period_def simul_sma_def deltaphase_def
      phase_def take_idx_def and_then_def item_def column_def arctan2_def
      half_distance_def euclidean_distance_def vsub_def dot_def sqrt_100)

text \<open>
  C7, as amended. The semi-major axis is half the difference of the orbital-plane
  \<open>x\<close> coordinates at the first minimum and at the first maximum of \<open>p_r\<close>.
\<close>

theorem sma_half_x_difference:
  assumes "2 \<le> length imaxs"
    and "list_all (\<lambda>i. i < length orbit) imaxs"
    and "imins \<noteq> []"
    and "list_all (\<lambda>i. i < length orbit) imins"
    and "length orbit_orb = length orbit"
  shows "simul_sma orbit_orb imins imaxs
           = Inr ((orbit_orb ! (imins ! 0) ! 0 - orbit_orb ! (imaxs ! 0) ! 0) / 2)
         \<and> (\<exists>period dphase. orbit_analysis orbit orbit_orb imaxs imins
              = Inr (period, (orbit_orb ! (imins ! 0) ! 0 - orbit_orb ! (imaxs ! 0) ! 0) / 2,
                     dphase))"
proof -
  have ne: "imaxs \<noteq> []" using assms(1) by auto
  have s: "simul_sma orbit_orb imins imaxs
           = Inr ((orbit_orb ! (imins ! 0) ! 0 - orbit_orb ! (imaxs ! 0) ! 0) / 2)"
    using assms ne by (intro simul_sma_ok) simp_all
  have p: "simul_period (column 0 orbit) imaxs
           = Inr (column 0 orbit ! (imaxs ! 1) - column 0 orbit ! (imaxs ! 0))"
    using assms(1,2) by (intro simul_period_ok) (simp_all add: column_def)
  have d: "deltaphase orbit_orb imaxs
           = Inr (arctan2 (orbit_orb ! (imaxs ! 1) ! 1) (orbit_orb ! (imaxs ! 1) ! 0) + pi)"
    using assms by (intro deltaphase_ok) simp_all
  show ?thesis
    by (simp add: s p d orbit_analysis_def Let_def and_then_def)
qed

theorem sma_half_x_difference_witness:
  "simul_sma [[0, 9, 0], [3, 4, 0], [- 3, - 4, 0], [3, 4, 0], [1, 0, 0], [0, 9, 0]] [1, 3] [2, 4]
     = Inr 3
   \<and> (\<exists>period dphase. orbit_analysis
        [[0, 9, 1, 0, 0, 0], [1, 5, 1, 1, - 1, 0], [2, 5, 1, 2, 1, 0], [3, 5, 1, 3, - 1, 0],
         [4, 5, 1, 4, 1, 0], [5, 9, 1, 5, 0, 0]]
        [[0, 9, 0], [3, 4, 0], [- 3, - 4, 0], [3, 4, 0], [1, 0, 0], [0, 9, 0]] [2, 4] [1, 3]
      = Inr (period, 3, dphase))"
proof -
  let ?orbit = "[[0, 9, 1, 0, 0, 0], [1, 5, 1, 1, - 1, 0], [2, 5, 1, 2, 1, 0],
                 [3, 5, 1, 3, - 1, 0], [4, 5, 1, 4, 1, 0], [5, 9, 1, 5, 0, 0 :: real]]"
  let ?orb = "[[0, 9, 0], [3, 4, 0], [- 3, - 4, 0], [3, 4, 0], [1, 0, 0], [0, 9, 0 :: real]]"
  have h1: "2 \<le> length [2, 4 :: nat]" by simp
  have h2: "list_all (\<lambda>i. i < length ?orbit) [2, 4]" by simp
  have h3: "[1, 3 :: nat] \<noteq> []" by simp
  have h4: "list_all (\<lambda>i. i < length ?orbit) [1, 3]" by simp
  have h5: "length ?orb = length ?orbit" by simp
  from sma_half_x_difference [OF h1 h2 h3 h4 h5]
  show ?thesis by simp
qed

subsection \<open>The round trip through Cartesian coordinates\<close>

lemma sqrt_ratio:
  assumes "x \<noteq> 0"
  shows "sqrt (1 + (y / x)\<^sup>2) = sqrt (x * x + y * y) / \<bar>x\<bar>"
proof -
  have "1 + (y / x)\<^sup>2 = (x * x + y * y) / (x * x)"
    using assms by (simp add: field_simps power2_eq_square)
  then show ?thesis
    by (simp add: real_sqrt_divide)
qed

lemma cos_arctan_ratio:
  assumes "x \<noteq> 0"
  shows "cos (arctan (y / x)) = \<bar>x\<bar> / sqrt (x * x + y * y)"
  using assms by (simp add: cos_arctan sqrt_ratio)

lemma sin_arctan_ratio:
  assumes "x \<noteq> 0"
  shows "sin (arctan (y / x)) = (y / x) * \<bar>x\<bar> / sqrt (x * x + y * y)"
  using assms by (simp add: sin_arctan sqrt_ratio)

lemma polar_norm:
  "(rho * cos phi) * (rho * cos phi) + (rho * sin phi) * (rho * sin phi) = rho * (rho :: real)"
proof -
  have "(rho * cos phi) * (rho * cos phi) + (rho * sin phi) * (rho * sin phi)
        = rho * rho * (cos phi * cos phi) + rho * rho * (sin phi * sin phi)"
    by (simp add: mult_ac)
  also have "\<dots> = rho * rho * (cos phi * cos phi + sin phi * sin phi)"
    by (simp only: distrib_left)
  also have "\<dots> = rho * rho"
    by (simp only: sin_cos_squared_add3 mult_1_right)
  finally show ?thesis .
qed

lemma cos_arctan2:
  assumes "x \<noteq> 0 \<or> y \<noteq> 0"
  shows "cos (arctan2 y x) = x / sqrt (x * x + y * y)"
proof -
  consider "0 < x" | "x < 0" | "x = 0" "y \<noteq> 0" using assms by fastforce
  then show ?thesis
  proof cases
    case 1
    then show ?thesis by (simp add: arctan2_def cos_arctan_ratio)
  next
    case 2
    then show ?thesis by (simp add: arctan2_def cos_arctan_ratio)
  next
    case 3
    then show ?thesis by (simp add: arctan2_def)
  qed
qed

lemma sin_arctan2:
  assumes "x \<noteq> 0 \<or> y \<noteq> 0"
  shows "sin (arctan2 y x) = y / sqrt (x * x + y * y)"
proof -
  consider "0 < x" | "x < 0" | "x = 0" "0 < y" | "x = 0" "y < 0" using assms by fastforce
  then show ?thesis
  proof cases
    case 1
    then show ?thesis by (simp add: arctan2_def sin_arctan_ratio)
  next
    case 2
    then show ?thesis by (simp add: arctan2_def sin_arctan_ratio)
  next
    case 3
    then show ?thesis by (simp add: arctan2_def)
  next
    case 4
    then show ?thesis by (simp add: arctan2_def)
  qed
qed

lemma arctan2_polar:
  assumes "0 < rho"
  shows "\<exists>k::int. arctan2 (rho * sin phi) (rho * cos phi) = phi + 2 * pi * of_int k"
proof -
  let ?x = "rho * cos phi" and ?y = "rho * sin phi"
  let ?psi = "arctan2 ?y ?x"
  have n: "?x * ?x + ?y * ?y = rho * rho"
    by (rule polar_norm)
  have "sqrt (rho * rho) = rho"
    using assms by simp
  then have s: "sqrt (?x * ?x + ?y * ?y) = rho"
    by (simp only: n)
  have nz: "?x \<noteq> 0 \<or> ?y \<noteq> 0"
  proof (rule ccontr)
    assume "\<not> ?thesis"
    then have "?x * ?x + ?y * ?y = 0" by simp
    with n assms show False by simp
  qed
  have c: "cos ?psi = cos phi"
    using assms by (simp add: cos_arctan2 [OF nz] s)
  have si: "sin ?psi = sin phi"
    using assms by (simp add: sin_arctan2 [OF nz] s)
  have "cos (?psi - phi) = 1"
    by (simp add: cos_diff c si sin_cos_squared_add3)
  then obtain k :: int where "?psi - phi = of_int k * 2 * pi"
    by (auto simp: cos_one_2pi_int)
  then have "?psi = phi + 2 * pi * of_int k" by (simp add: algebra_simps)
  then show ?thesis ..
qed

lemma cartesian_round_trip:
  assumes r: "0 < r" and th: "0 < theta" "theta < pi"
  shows "\<exists>k::int. boyer_lindquist a
            (cartesian a r theta phi ! 0) (cartesian a r theta phi ! 1) (cartesian a r theta phi ! 2)
          = [r, theta, phi + 2 * pi * of_int k]"
proof -
  define rho where "rho = sqrt (r * r + a * a) * sin theta"
  have st: "0 < sin theta" using th by (rule sin_gt_zero)
  have "0 < r * r + a * a" using r by (simp add: add_pos_nonneg)
  then have rho: "0 < rho" using st by (simp add: rho_def)
  define x0 where "x0 = rho * cos phi"
  define y0 where "y0 = rho * sin phi"
  define z0 where "z0 = r * cos theta"
  have c: "cartesian a r theta phi = [x0, y0, z0]"
    by (simp add: cartesian_def x0_def y0_def z0_def rho_def)
  have xy: "x0 * x0 + y0 * y0 = (r * r + a * a) * (sin theta * sin theta)"
  proof -
    have "x0 * x0 + y0 * y0 = rho * rho"
      unfolding x0_def y0_def by (rule polar_norm)
    also have "\<dots> = (sqrt (r * r + a * a) * sqrt (r * r + a * a)) * (sin theta * sin theta)"
      by (simp add: rho_def algebra_simps)
    also have "sqrt (r * r + a * a) * sqrt (r * r + a * a) = r * r + a * a" by simp
    finally show ?thesis .
  qed
  have sc: "sin theta * sin theta = 1 - cos theta * cos theta"
    using sin_cos_squared_add3 [of theta] by linarith
  define w where "w = a * a * (cos theta * cos theta)"
  have w: "0 \<le> w" by (simp add: w_def)
  have ax: "a_xyz a x0 y0 z0 = w - r * r"
  proof -
    have "a_xyz a x0 y0 z0 = a * a - (x0 * x0 + y0 * y0) - z0 * z0"
      by (simp add: a_xyz_def)
    also have "\<dots> = w - r * r"
      by (simp add: xy sc z0_def w_def algebra_simps)
    finally show ?thesis .
  qed
  have disc: "a_xyz a x0 y0 z0 * a_xyz a x0 y0 z0 + 4 * a * a * z0 * z0 = (w + r * r) * (w + r * r)"
    unfolding ax by (simp add: z0_def w_def algebra_simps)
  have "0 \<le> w + r * r" using w by simp
  then have "sqrt ((w + r * r) * (w + r * r)) = w + r * r" by simp
  then have sq: "sqrt (a_xyz a x0 y0 z0 * a_xyz a x0 y0 z0 + 4 * a * a * z0 * z0) = w + r * r"
    by (simp only: disc)
  have "- (1 / 2) * a_xyz a x0 y0 z0
        + (1 / 2) * sqrt (a_xyz a x0 y0 z0 * a_xyz a x0 y0 z0 + 4 * a * a * z0 * z0) = r * r"
    unfolding sq unfolding ax by (simp add: field_simps)
  then have r0: "sqrt (- (1 / 2) * a_xyz a x0 y0 z0
        + (1 / 2) * sqrt (a_xyz a x0 y0 z0 * a_xyz a x0 y0 z0 + 4 * a * a * z0 * z0)) = r"
    using r by simp
  have th0: "arccos (z0 / r) = theta"
    using r th by (simp add: z0_def arccos_cos)
  obtain k :: int where k: "arctan2 y0 x0 = phi + 2 * pi * of_int k"
    using arctan2_polar [OF rho, of phi] unfolding x0_def y0_def by blast
  have "boyer_lindquist a x0 y0 z0 = [r, theta, phi + 2 * pi * of_int k]"
    by (simp only: boyer_lindquist_def Let_def r0 th0 k)
  then show ?thesis by (auto simp: c)
qed

lemma horizon_pos: "\<bar>a\<bar> \<le> 1 \<Longrightarrow> 1 \<le> horizon a"
  by (simp add: horizon_def abs_le_square_iff [of a 1, simplified] power2_eq_square)

text \<open>
  C5. For a spin \<open>|a| \<le> 1\<close>, a radius above the horizon and \<open>\<theta>\<close> strictly between
  0 and \<open>\<pi>\<close>, the Boyer-Lindquist position computed as in lines 135-140 from the
  Cartesian point of lines 195-199 is the original \<open>(r, \<theta>, \<phi>)\<close>, with \<open>\<phi>\<close> up to a
  multiple of \<open>2\<pi>\<close>.
\<close>

theorem coordinates_round_trip:
  assumes "\<bar>a\<bar> \<le> 1" and "horizon a < r" and "0 < theta" and "theta < pi"
  shows "\<exists>k::int. boyer_lindquist a
            (cartesian a r theta phi ! 0) (cartesian a r theta phi ! 1) (cartesian a r theta phi ! 2)
          = [r, theta, phi + 2 * pi * of_int k]"
proof -
  have "0 < r" using horizon_pos [OF assms(1)] assms(2) by linarith
  then show ?thesis using assms(3,4) by (rule cartesian_round_trip)
qed

theorem coordinates_round_trip_witness:
  "\<bar>99 / 100 :: real\<bar> \<le> 1 \<and> horizon (99 / 100) < 3 \<and> 0 < pi / 3 \<and> pi / 3 < pi
   \<and> (\<exists>k::int. boyer_lindquist (99 / 100)
            (cartesian (99 / 100) 3 (pi / 3) 5 ! 0) (cartesian (99 / 100) 3 (pi / 3) 5 ! 1)
            (cartesian (99 / 100) 3 (pi / 3) 5 ! 2)
          = [3, pi / 3, 5 + 2 * pi * of_int k])"
proof -
  have h1: "\<bar>99 / 100 :: real\<bar> \<le> 1" by simp
  have "sqrt (1 - 99 / 100 * (99 / 100)) < sqrt 4"
    by (rule real_sqrt_less_mono) simp
  also have "sqrt 4 = 2" by (rule real_sqrt_unique) simp_all
  finally have h2: "horizon (99 / 100) < 3" by (simp add: horizon_def)
  have h3: "0 < pi / 3" by simp
  have h4: "pi / 3 < pi" by simp
  from coordinates_round_trip [OF h1 h2 h3 h4, of 5] h1 h2 h3 h4
  show ?thesis by blast
qed

subsection \<open>The start of a light ray\<close>

lemma bh_from_obs_eval: "bh_from_obs = [[- 1, 0, 0], [0, 1, 0], [0, 0, - 1]]"
  by (simp add: bh_from_obs_def matmul_def mat_transpose_def R_spin_theta_def R_spin_phi_def
      spin_theta_def spin_phi_def dot_def upt_rec)

lemma obs_from_bh_eval: "obs_from_bh = [[- 1, 0, 0], [0, 1, 0], [0, 0, - 1]]"
  by (simp add: obs_from_bh_def bh_from_obs_eval mat_transpose_def upt_rec)

lemma xyz0_of_eval: "xyz0_of x y = [- x, y, - z_inf]"
  by (simp add: xyz0_of_def bh_from_obs_eval matvec_def dot_def)

lemma v0_eval: "v0 = [0, 0, - 1]"
  by (simp add: v0_def bh_from_obs_eval matvec_def dot_def)

lemma pos0_of_eval: "pos0_of x y a = boyer_lindquist a (- x) y (- z_inf)"
  by (simp add: pos0_of_def xyz_to_bl_def xyz0_of_eval)

lemma mat_of_direction:
  "mat_of x y a = direction_matrix a (- x) y (- z_inf) (pos0_of x y a ! 0) (pos0_of x y a ! 1)"
  by (simp add: mat_of_def Let_def xyz0_of_eval)

lemma solve_or_print_singular:
  "det3 m = 0 \<Longrightarrow> solve_or_print m v = ([m], [0, 0, 0, 0])"
  by (simp add: solve_or_print_def linalg_solve_def)

lemma solve_or_print_regular:
  "det3 m \<noteq> 0 \<Longrightarrow> solve_or_print m v
     = ([], [0, det3 (replace_col m 0 v) / det3 m, det3 (replace_col m 1 v) / det3 m,
             det3 (replace_col m 2 v) / det3 m])"
  by (simp add: solve_or_print_def linalg_solve_def upt_3)

lemma ray_init_singular:
  assumes "det3 (mat_of x y a) = 0"
  shows "rs_printed (ray_init metric_l x y a) = [mat_of x y a]"
    and "rs_p (ray_init metric_l x y a)
         = [- 1 / (metric_l (pos0_of x y a @ [0, 0]) a ! 0 ! 0), 0, 0, 0]"
  using assms by (simp_all add: ray_init_def Let_def solve_or_print_singular)

lemma det3_dphi: "det3 (replace_col (direction_matrix a x0 y0 z0 r0 th) 2 [0, 0, - 1]) = 0"
  by (simp add: det3_def replace_col_def direction_matrix_def)

lemma ray_samples_single:
  "ray_samples metric_l solver x y a 0
   = [cartesian a (pos0_of x y a ! 0) (pos0_of x y a ! 1) (pos0_of x y a ! 2)]"
proof -
  obtain r th ph where p: "pos0_of x y a = [r, th, ph]"
    by (simp add: pos0_of_eval boyer_lindquist_def Let_def)
  show ?thesis
    by (simp add: ray_samples_def Let_def linspace_def odeint_def ray_xyz_def ray_init_def p
        split: prod.splits)
qed

text \<open>
  The ray leaves along the line of sight, so the solution of the linear system has no
  \<open>\<phi>\<close> component; with \<open>_p[0]\<close> as line 265 sets it, the covariant time component
  of the momentum is \<open>-1\<close> for every metric that does not couple \<open>t\<close> and \<open>r\<close>.
\<close>

lemma initial_p_t:
  assumes shape: "0 < length (metric_l (pos0_of x y a @ [0, 0]) a)"
      "length (metric_l (pos0_of x y a @ [0, 0]) a ! 0) = 4"
    and g00: "metric_l (pos0_of x y a @ [0, 0]) a ! 0 ! 0 \<noteq> 0"
    and g01: "metric_l (pos0_of x y a @ [0, 0]) a ! 0 ! 1 = 0"
    and det: "det3 (mat_of x y a) \<noteq> 0"
  shows "rs_p_cov (ray_init metric_l x y a) ! 0 = - 1"
proof -
  define g where "g = metric_l (pos0_of x y a @ [0, 0]) a"
  obtain g00 g01 g02 g03 where row: "g ! 0 = [g00, g01, g02, g03]"
    using list4 [OF shape(2)] unfolding g_def [symmetric] by blast
  have g00': "g00 \<noteq> 0" using g00 row by (simp add: g_def [symmetric])
  have g01': "g01 = 0" using g01 row by (simp add: g_def [symmetric])
  have len: "0 < length g" using shape(1) by (simp add: g_def)
  define D where "D = det3 (mat_of x y a)"
  define s0 where "s0 = det3 (replace_col (mat_of x y a) 0 v0) / D"
  define s1 where "s1 = det3 (replace_col (mat_of x y a) 1 v0) / D"
  have s2: "det3 (replace_col (mat_of x y a) 2 v0) = 0"
    by (simp only: mat_of_direction v0_eval det3_dphi)
  have sol: "solve_or_print (mat_of x y a) v0 = ([], [0, s0, s1, 0])"
    using det by (simp add: solve_or_print_regular s0_def s1_def D_def s2)
  have pc: "rs_p_cov (ray_init metric_l x y a) = matvec g [(- 1 - s1 * g02) / g00, s0, s1, 0]"
    using row by (simp add: ray_init_def Let_def sol g_def [symmetric])
  have "matvec g [(- 1 - s1 * g02) / g00, s0, s1, 0] ! 0
        = dot (g ! 0) [(- 1 - s1 * g02) / g00, s0, s1, 0]"
    using len by (simp add: matvec_def)
  also have "\<dots> = - 1"
    using g00' g01' by (simp add: row dot_def)
  finally show ?thesis by (simp add: pc)
qed

lemma boyer_lindquist_no_spin:
  "boyer_lindquist 0 x y z
   = [sqrt (x * x + y * y + z * z), arccos (z / sqrt (x * x + y * y + z * z)), arctan2 y x]"
proof -
  define s where "s = x * x + y * y + z * z"
  have s: "0 \<le> s" by (simp add: s_def)
  have ax: "a_xyz 0 x y z = - s" by (simp add: a_xyz_def s_def)
  have "sqrt (a_xyz 0 x y z * a_xyz 0 x y z + 4 * 0 * 0 * z * z) = s"
    using s by (simp add: ax)
  then have "- (1 / 2) * a_xyz 0 x y z
        + (1 / 2) * sqrt (a_xyz 0 x y z * a_xyz 0 x y z + 4 * 0 * 0 * z * z) = s"
    by (simp add: ax)
  then show ?thesis
    by (simp only: boyer_lindquist_def Let_def s_def)
qed

lemma sqrt_1e10: "sqrt 10000000000 = 100000"
  by (rule real_sqrt_unique) simp_all

lemma sqrt_125000: "sqrt 15625000000 = 125000"
  by (rule real_sqrt_unique) simp_all

lemma sqrt_260000: "sqrt 67600000000 = 260000"
  by (rule real_sqrt_unique) simp_all

lemma sqrt_sentinel: "sqrt 20000000000 = sqrt 2 * 100000"
proof -
  have "sqrt 20000000000 = sqrt (2 * (100000 * 100000))" by simp
  also have "\<dots> = sqrt 2 * 100000" by (simp only: real_sqrt_mult real_sqrt_abs2) simp
  finally show ?thesis .
qed

lemma pos0_axis: "pos0_of 0 0 0 = [100000, pi, 0]"
  by (simp add: pos0_of_eval boyer_lindquist_no_spin z_inf_def sqrt_1e10 arctan2_def)

lemma mat_of_axis: "mat_of 0 0 0 = [[0, 0, 0], [0, 0, 0], [- 1, 0, 0]]"
  by (simp add: mat_of_direction pos0_axis direction_matrix_def z_inf_def)

lemma det3_axis: "det3 (mat_of 0 0 0) = 0"
  by (simp add: mat_of_axis det3_def)

lemma kerr_axis: "kerr_metric [100000, pi, 0, 0, 0] 0 =
   [[- (49999 / 50000), 0, 0, 0], [0, 50000 / 49999, 0, 0], [0, 0, 10000000000, 0], [0, 0, 0, 0]]"
  by (simp add: kerr_metric_def Let_def Delta_def)

lemma pos0_345: "pos0_of 75000 0 0 = [125000, arccos (- (4 / 5)), pi]"
  by (simp add: pos0_of_eval boyer_lindquist_no_spin z_inf_def sqrt_125000 arctan2_def)

lemma sin_arccos_4_5: "sin (arccos (- (4 / 5))) = 3 / 5"
proof -
  have "sin (arccos (- (4 / 5))) = sqrt (1 - (- (4 / 5))\<^sup>2)"
    by (rule sin_arccos) simp_all
  also have "\<dots> = 3 / 5"
    by (rule real_sqrt_unique) (simp_all add: power2_eq_square)
  finally show ?thesis .
qed

lemma tan_shift: "tan (x - pi / 2) = - cos x / sin x"
  by (simp add: tan_def sin_diff cos_diff)

lemma mat_345: "mat_of 75000 0 0 = [[- (3 / 5), 100000, 0], [0, 0, - 75000], [- (4 / 5), - 75000, 0]]"
  by (simp add: mat_of_direction pos0_345 direction_matrix_def z_inf_def tan_shift sin_arccos_4_5)

lemma det_345: "det3 (mat_of 75000 0 0) \<noteq> 0"
  by (simp add: mat_345 det3_def)

lemma kerr_345: "kerr_metric ([125000, arccos (- (4 / 5)), pi] @ [0, 0]) 0 ! 0 = [- (62499 / 62500), 0, 0, 0]"
  by (simp add: kerr_metric_def Let_def)

lemma start_radius:
  assumes "\<bar>a\<bar> \<le> 1"
  shows "3 \<le> pos0_of x y a ! 0"
proof -
  define A where "A = a_xyz a (- x) y (- z_inf)"
  define B where "B = sqrt (A * A + 4 * a * a * (- z_inf) * (- z_inf))"
  have a2: "a * a \<le> 1"
    using assms by (simp add: abs_le_square_iff [of a 1, simplified] power2_eq_square)
  have "A = a * a - x * x - y * y - 10000000000"
    by (simp add: A_def a_xyz_def z_inf_def)
  moreover have "0 \<le> x * x" "0 \<le> y * y" by simp_all
  ultimately have A: "A \<le> - 9" using a2 by linarith
  have "0 \<le> (a * z_inf) * (a * z_inf)" by simp
  then have "0 \<le> 4 * a * a * (- z_inf) * (- z_inf)" by (simp add: mult_ac)
  then have "sqrt (A * A) \<le> B"
    unfolding B_def by (intro real_sqrt_le_mono) linarith
  then have "- A \<le> B" using A by simp
  then have "9 \<le> - (1 / 2) * A + (1 / 2) * B" using A by simp
  then have "sqrt 9 \<le> sqrt (- (1 / 2) * A + (1 / 2) * B)"
    by (rule real_sqrt_le_mono)
  moreover have "sqrt 9 = 3" by (rule real_sqrt_unique) simp_all
  moreover have "pos0_of x y a ! 0 = sqrt (- (1 / 2) * A + (1 / 2) * B)"
    by (simp add: pos0_of_eval boyer_lindquist_def Let_def A_def B_def)
  ultimately show ?thesis by simp
qed

lemma kerr_g_tt:
  assumes "3 \<le> s ! 0"
  shows "kerr_metric s a ! 0 ! 0 < 0" and "kerr_metric s a ! 0 ! 1 = 0"
    and "length (kerr_metric s a) = 4" and "length (kerr_metric s a ! 0) = 4"
proof -
  define r where "r = s ! 0"
  define Sigma where "Sigma = r * r + a * a * cos (s ! 1) * cos (s ! 1)"
  have r: "3 \<le> r" using assms by (simp add: r_def)
  have "3 * r \<le> r * r" using r by (simp add: mult_right_mono)
  moreover have "0 \<le> (a * cos (s ! 1)) * (a * cos (s ! 1))" by simp
  then have "0 \<le> a * a * cos (s ! 1) * cos (s ! 1)" by (simp add: mult_ac)
  ultimately have "2 * r < Sigma" using r unfolding Sigma_def by linarith
  moreover have "0 < Sigma" using \<open>2 * r < Sigma\<close> r by linarith
  ultimately have "2 * r / Sigma < 1" by simp
  then show "kerr_metric s a ! 0 ! 0 < 0"
    by (simp add: kerr_metric_def Let_def r_def Sigma_def)
  show "kerr_metric s a ! 0 ! 1 = 0" "length (kerr_metric s a) = 4"
    "length (kerr_metric s a ! 0) = 4"
    by (simp_all add: kerr_metric_def Let_def)
qed

text \<open>
  For the Kerr metric of the spec and every spin \<open>|a| \<le> 1\<close> the ray starts far outside
  the ergosphere, where \<open>g_tt < 0\<close>: the energy is 1 whenever the direction matrix is
  regular.
\<close>

lemma kerr_photon_energy:
  assumes "\<bar>a\<bar> \<le> 1" and "det3 (mat_of x y a) \<noteq> 0"
  shows "- (rs_p_cov (ray_init kerr_metric x y a) ! 0) = 1"
proof -
  have r: "3 \<le> (pos0_of x y a @ [0, 0]) ! 0"
    using start_radius [OF assms(1), of x y]
    by (simp add: pos0_of_eval boyer_lindquist_def Let_def)
  have "rs_p_cov (ray_init kerr_metric x y a) ! 0 = - 1"
    using kerr_g_tt [OF r, of a] assms(2) by (intro initial_p_t) simp_all
  then show ?thesis by simp
qed

text \<open>
  C8. For every sky offset and spin at which the direction matrix is regular, the
  photon energy \<open>E = -p_t\<close> of the initial covariant momentum is 1. The metric is a
  parameter (\<^verbatim>\<open>deriv_funcs_light.metric\<close> is not among the sources): a 4\<times>4 array
  whose \<open>t\<close>-\<open>t\<close> component is not zero and whose \<open>t\<close>-\<open>r\<close> component is zero, as in
  Boyer-Lindquist coordinates.
\<close>

theorem photon_energy_one:
  assumes "0 < length (metric_l (pos0_of x y a @ [0, 0]) a)"
    and "length (metric_l (pos0_of x y a @ [0, 0]) a ! 0) = 4"
    and "metric_l (pos0_of x y a @ [0, 0]) a ! 0 ! 0 \<noteq> 0"
    and "metric_l (pos0_of x y a @ [0, 0]) a ! 0 ! 1 = 0"
    and "det3 (mat_of x y a) \<noteq> 0"
  shows "- (rs_p_cov (ray_init metric_l x y a) ! 0) = 1"
proof -
  have "rs_p_cov (ray_init metric_l x y a) ! 0 = - 1"
    using assms by (rule initial_p_t)
  then show ?thesis by simp
qed

theorem photon_energy_one_witness:
  "det3 (mat_of 75000 0 0) \<noteq> 0
   \<and> kerr_metric (pos0_of 75000 0 0 @ [0, 0]) 0 ! 0 = [- (62499 / 62500), 0, 0, 0]
   \<and> - (rs_p_cov (ray_init kerr_metric 75000 0 0) ! 0) = 1"
proof -
  have row: "kerr_metric (pos0_of 75000 0 0 @ [0, 0]) 0 ! 0 = [- (62499 / 62500), 0, 0, 0]"
    by (simp only: pos0_345 kerr_345)
  have h1: "0 < length (kerr_metric (pos0_of 75000 0 0 @ [0, 0]) 0)"
    by (simp add: kerr_metric_def Let_def)
  have h2: "length (kerr_metric (pos0_of 75000 0 0 @ [0, 0]) 0 ! 0) = 4"
    by (simp add: row)
  have h3: "kerr_metric (pos0_of 75000 0 0 @ [0, 0]) 0 ! 0 ! 0 \<noteq> 0"
    by (simp add: row)
  have h4: "kerr_metric (pos0_of 75000 0 0 @ [0, 0]) 0 ! 0 ! 1 = 0"
    by (simp add: row)
  from photon_energy_one [of kerr_metric 75000 0 0, OF h1 h2 h3 h4 det_345] det_345 row
  show ?thesis by simp
qed

text \<open>
  C3 as stated fails: for the ray along the axis (\<open>x = y = 0\<close>) the direction matrix
  is singular, the matrix is printed, the spatial momentum stays all-zero, and
  \<^verbatim>\<open>minimum_distance\<close> returns a number all the same.
\<close>

theorem singular_solve_continues:
  "det3 (mat_of 0 0 0) = 0
   \<and> rs_printed (ray_init kerr_metric 0 0 0) = [[[0, 0, 0], [0, 0, 0], [- 1, 0, 0]]]
   \<and> rs_p (ray_init kerr_metric 0 0 0) = [50000 / 49999, 0, 0, 0]
   \<and> minimum_distance kerr_metric (\<lambda>a b y0 t0 t. y0) 0 0 [0, 0, 0] 0 0
     = ([[[0, 0, 0], [0, 0, 0], [- 1, 0, 0]]], 100000)"
proof -
  have p: "rs_printed (ray_init kerr_metric 0 0 0) = [[[0, 0, 0], [0, 0, 0], [- 1, 0, 0]]]"
    by (simp add: ray_init_singular(1) [OF det3_axis] mat_of_axis)
  have q: "rs_p (ray_init kerr_metric 0 0 0) = [50000 / 49999, 0, 0, 0]"
    by (simp add: ray_init_singular(2) [OF det3_axis] pos0_axis kerr_axis)
  have s: "ray_samples kerr_metric (\<lambda>a b y0 t0 t. y0) 0 0 0 0 = [[0, 0, - 100000]]"
    by (simp add: ray_samples_single pos0_axis cartesian_def)
  have m: "minimum_distance kerr_metric (\<lambda>a b y0 t0 t. y0) 0 0 [0, 0, 0] 0 0
     = ([[[0, 0, 0], [0, 0, 0], [- 1, 0, 0]]], 100000)"
    by (simp add: minimum_distance_def Let_def p s obs_from_bh_eval matvec_def dot_def
        vsub_def z_inf_def sqrt_1e10)
  show ?thesis using det3_axis p q m by simp
qed

text \<open>
  C3, as amended. When the linear solve is singular, \<^verbatim>\<open>minimum_distance\<close> prints
  the direction matrix and goes on: the spatial part \<open>_p[1:4]\<close> of the contravariant
  momentum stays all-zero, and the function returns the distance it finds along the ray
  integrated from that momentum. Nothing is raised to the caller.
\<close>

theorem singular_solve_prints_and_goes_on:
  assumes "det3 (mat_of x y a) = 0"
  shows "rs_printed (ray_init metric_l x y a) = [mat_of x y a]
       \<and> tl (rs_p (ray_init metric_l x y a)) = [0, 0, 0]
       \<and> minimum_distance metric_l solver x y pos a nt
         = ([mat_of x y a],
            sqrt (scan_min (2 * z_inf * z_inf) (ray_samples metric_l solver x y a nt) pos))"
  using assms by (simp add: ray_init_singular minimum_distance_def Let_def)

theorem singular_solve_prints_and_goes_on_witness:
  "det3 (mat_of 0 0 0) = 0
   \<and> rs_printed (ray_init kerr_metric 0 0 0) = [mat_of 0 0 0]
   \<and> tl (rs_p (ray_init kerr_metric 0 0 0)) = [0, 0, 0]
   \<and> minimum_distance kerr_metric (\<lambda>a b y0 t0 t. y0) 0 0 [1, 2, 3] 0 7
     = ([mat_of 0 0 0],
        sqrt (scan_min (2 * z_inf * z_inf)
               (ray_samples kerr_metric (\<lambda>a b y0 t0 t. y0) 0 0 0 7) [1, 2, 3]))"
  using det3_axis singular_solve_prints_and_goes_on [OF det3_axis] by simp

subsection \<open>The closest approach\<close>

lemma scan_min_le: "scan_min m rows pos \<le> m"
proof (induction rows arbitrary: m)
  case Nil
  show ?case by simp
next
  case (Cons row rows)
  let ?d = "dot (vsub (matvec obs_from_bh row) pos) (vsub (matvec obs_from_bh row) pos)"
  have "scan_min m (row # rows) pos = scan_min (if ?d < m then ?d else m) rows pos"
    by (simp add: Let_def)
  also have "\<dots> \<le> (if ?d < m then ?d else m)" by (rule Cons.IH)
  also have "\<dots> \<le> m" by simp
  finally show ?case .
qed

lemma scan_min_far:
  "list_all (\<lambda>row. m < dot (vsub (matvec obs_from_bh row) pos) (vsub (matvec obs_from_bh row) pos)) rows
   \<Longrightarrow> scan_min m rows pos = m"
  by (induction rows) (simp_all add: Let_def)

lemma scan_min_fold:
  "scan_min m rows pos
   = fold min (map (\<lambda>row. dot (vsub (matvec obs_from_bh row) pos) (vsub (matvec obs_from_bh row) pos)) rows) m"
  by (induction rows arbitrary: m) (simp_all add: Let_def min_def)

lemma sentinel: "sqrt (2 * z_inf * z_inf) = sqrt 2 * 100000"
proof -
  have "sqrt (2 * z_inf * z_inf) = sqrt 2 * sqrt (z_inf * z_inf)"
    by (simp add: real_sqrt_mult mult.assoc)
  also have "sqrt (z_inf * z_inf) = 100000"
    by (simp add: z_inf_def)
  finally show ?thesis .
qed

lemma far_iff:
  "(sqrt 2 * z_inf < euclidean_distance u v) = (2 * z_inf * z_inf < dot (vsub u v) (vsub u v))"
proof -
  have "sqrt 2 * z_inf = sqrt 2 * 100000"
    by (simp add: z_inf_def)
  then have "sqrt 2 * z_inf = sqrt (2 * z_inf * z_inf)"
    by (simp only: sentinel)
  then show ?thesis
    by (simp add: euclidean_distance_def)
qed

lemma sin_arccos_5_13: "sin (arccos (- (5 / 13))) = 12 / 13"
proof -
  have "sin (arccos (- (5 / 13))) = sqrt (1 - (- (5 / 13))\<^sup>2)"
    by (rule sin_arccos) simp_all
  also have "\<dots> = 12 / 13"
    by (rule real_sqrt_unique) (simp_all add: power2_eq_square)
  finally show ?thesis .
qed

lemma pos0_far: "pos0_of 240000 0 0 = [260000, arccos (- (5 / 13)), pi]"
  by (simp add: pos0_of_eval boyer_lindquist_no_spin z_inf_def sqrt_260000 arctan2_def)

lemma far_sample: "ray_samples metric_l solver 240000 0 0 0 = [[- 240000, 0, - 100000]]"
  by (simp add: ray_samples_single pos0_far cartesian_def sin_arccos_5_13)

lemma far_result: "snd (minimum_distance metric_l solver 240000 0 [0, 0, 0] 0 0) = sqrt 2 * 100000"
  by (simp add: minimum_distance_def Let_def far_sample obs_from_bh_eval matvec_def dot_def
      vsub_def z_inf_def sqrt_sentinel)

lemma far_distance:
  "map (\<lambda>row. euclidean_distance (matvec obs_from_bh row) [0, 0, 0])
     (ray_samples metric_l solver 240000 0 0 0) = [260000]"
  by (simp add: far_sample obs_from_bh_eval matvec_def dot_def vsub_def euclidean_distance_def sqrt_260000)

text \<open>
  C9. \<^verbatim>\<open>minimum_distance\<close> never returns more than \<open>\<surd>2 \<cdot> 100000\<close>, the square
  root of the value its accumulator starts from; when every sampled point of the ray is
  farther than that from the target, it returns exactly this value, not the minimum of
  the distances.
\<close>

theorem sentinel_bound:
  "snd (minimum_distance metric_l solver x y pos a nt) \<le> sqrt 2 * 100000
   \<and> (list_all (\<lambda>row. sqrt 2 * z_inf < euclidean_distance (matvec obs_from_bh row) pos)
         (ray_samples metric_l solver x y a nt)
       \<longrightarrow> snd (minimum_distance metric_l solver x y pos a nt) = sqrt 2 * 100000)"
proof -
  let ?rows = "ray_samples metric_l solver x y a nt"
  have r: "snd (minimum_distance metric_l solver x y pos a nt)
           = sqrt (scan_min (2 * z_inf * z_inf) ?rows pos)"
    by (simp add: minimum_distance_def Let_def)
  have "sqrt (scan_min (2 * z_inf * z_inf) ?rows pos) \<le> sqrt (2 * z_inf * z_inf)"
    using scan_min_le [of "2 * z_inf * z_inf" ?rows pos] by simp
  then have le: "snd (minimum_distance metric_l solver x y pos a nt) \<le> sqrt 2 * 100000"
    by (simp add: r sentinel)
  have "snd (minimum_distance metric_l solver x y pos a nt) = sqrt 2 * 100000"
    if far: "list_all (\<lambda>row. sqrt 2 * z_inf < euclidean_distance (matvec obs_from_bh row) pos) ?rows"
  proof -
    have "scan_min (2 * z_inf * z_inf) ?rows pos = 2 * z_inf * z_inf"
      using far by (intro scan_min_far) (simp add: far_iff)
    then show ?thesis by (simp add: r sentinel)
  qed
  with le show ?thesis by blast
qed

theorem sentinel_bound_witness:
  "list_all (\<lambda>row. sqrt 2 * z_inf < euclidean_distance (matvec obs_from_bh row) [0, 0, 0])
     (ray_samples kerr_metric (\<lambda>a b y0 t0 t. y0) 240000 0 0 0)
   \<and> snd (minimum_distance kerr_metric (\<lambda>a b y0 t0 t. y0) 240000 0 [0, 0, 0] 0 0) \<le> sqrt 2 * 100000
   \<and> snd (minimum_distance kerr_metric (\<lambda>a b y0 t0 t. y0) 240000 0 [0, 0, 0] 0 0) = sqrt 2 * 100000"
proof -
  have far: "list_all (\<lambda>row. sqrt 2 * z_inf < euclidean_distance (matvec obs_from_bh row) [0, 0, 0])
     (ray_samples kerr_metric (\<lambda>a b y0 t0 t. y0) 240000 0 0 0)"
    unfolding far_iff
    by (simp add: far_sample obs_from_bh_eval matvec_def dot_def vsub_def z_inf_def)
  from sentinel_bound [of kerr_metric "\<lambda>a b y0 t0 t. y0" 240000 0 "[0, 0, 0]" 0 0] far
  show ?thesis by blast
qed

text \<open>
  C1. The claim (the minimum over the sampled points, for every sky offset) fails on
  the code for a ray that starts far to the side: at the sky offset \<open>(240000, 0)\<close>, with
  the target at the origin, no spin and a grid of a single sample, the one sampled point
  is at distance 260000 from the target and the function returns \<open>\<surd>2 \<cdot> 100000\<close>.
\<close>

theorem far_ray_returns_sentinel:
  "snd (minimum_distance metric_l solver 240000 0 [0, 0, 0] 0 0) = sqrt 2 * 100000
   \<and> map (\<lambda>row. euclidean_distance (matvec obs_from_bh row) [0, 0, 0])
       (ray_samples metric_l solver 240000 0 0 0) = [260000]
   \<and> sqrt 2 * 100000 < (260000 :: real)"
proof -
  have "sqrt 2 < sqrt 4"
    by (rule real_sqrt_less_mono) simp
  then have "sqrt 2 * 100000 < (260000 :: real)" by simp
  then show ?thesis by (simp add: far_result far_distance)
qed

end
